theory Spec2Isabelle
  imports Complex_Main "HOL-Library.Multiset" "HOL-Library.Finite_Map"
begin

section \<open>Data model (types.ts)\<close>

text \<open>
  JavaScript numbers are modelled as mathematical integers: the numbers that the generator
  produces and the session store writes are integers far below \<open>2^53\<close>, where doubles are
  exact.
\<close>

record BloodPressureReading =
  systolic :: int
  diastolic :: int
  timestamp :: int

text \<open>A \<open>{min, max}\<close> pair of the configuration (\<open>min\<close> and \<open>max\<close> are HOL constants).\<close>

record MinMax =
  min_of :: int
  max_of :: int

text \<open>
  The fields \<open>systolic\<close> and \<open>diastolic\<close> of the configuration carry the suffix \<open>_range\<close>,
  since a reading has fields of the same names; \<open>pulsePresssure\<close> is spelled as in the source.
\<close>

record BloodPressureConfig =
  systolic_range :: MinMax
  diastolic_range :: MinMax
  pulsePresssure :: MinMax

datatype ErrorType = STORAGE_ERROR | GENERATION_ERROR | VALIDATION_ERROR

record AppError =
  error_type :: ErrorType
  message :: string
  details :: "string option"

text \<open>
  \<open>DatasetResult\<close> and \<open>StorageResult<T>\<close> are \<open>{success, data?, error?}\<close> objects; every
  return statement of the source sets \<open>success: false\<close> with an error or \<open>success: true\<close>
  with the data, so a result is a sum: \<open>Inl\<close> the error, \<open>Inr\<close> the data.
\<close>

type_synonym DatasetResult = "AppError + BloodPressureReading list"

type_synonym 'a StorageResult = "AppError + 'a"

section \<open>Decimal text of a number (\<open>Number.prototype.toString\<close>, template literals)\<close>

definition digit_char :: "nat \<Rightarrow> char" where
  "digit_char d = ''0123456789'' ! d"

fun nat_digits :: "nat \<Rightarrow> string" where
  "nat_digits n = (if n < 10 then [digit_char n] else nat_digits (n div 10) @ [digit_char (n mod 10)])"

declare nat_digits.simps [simp del]

definition Number_toString :: "int \<Rightarrow> string" where
  "Number_toString n = (if n < 0 then CHR ''-'' # nat_digits (nat (- n)) else nat_digits (nat n))"

section \<open>Dataset Engine (bloodPressureGenerator.ts)\<close>

text \<open>
  \<open>CONFIG\<close> is a module constant that every function of the generator reads. The embedding
  passes the configuration as the first argument \<open>cfg\<close>, so that statements about all
  configured ranges can be made; the program is the instance at \<open>CONFIG\<close>.
\<close>

definition CONFIG :: BloodPressureConfig where
  "CONFIG = \<lparr> systolic_range = \<lparr> min_of = 90, max_of = 140 \<rparr>,
              diastolic_range = \<lparr> min_of = 60, max_of = 90 \<rparr>,
              pulsePresssure = \<lparr> min_of = 20, max_of = 60 \<rparr> \<rparr>"

definition isValidPulsePreasure :: "BloodPressureConfig \<Rightarrow> int \<Rightarrow> int \<Rightarrow> bool" where
  "isValidPulsePreasure cfg s d =
     (let pulsePressure = s - d
      in pulsePressure \<ge> min_of (pulsePresssure cfg) \<and> pulsePressure \<le> max_of (pulsePresssure cfg))"

subsection \<open>Enumeration\<close>

text \<open>
  The inner loop of \<open>generateAllCombinations\<close>: \<open>diastolic\<close> runs from its current value to
  \<open>CONFIG.diastolic.max\<close>; a pair with a valid pulse pressure is pushed with the timestamp
  \<open>baseTimestamp + combinations.length * 1000\<close>. \<open>now\<close> is the value of \<open>Date.now()\<close>.
\<close>

function combinations_diastolic ::
  "BloodPressureConfig \<Rightarrow> int \<Rightarrow> int \<Rightarrow> int \<Rightarrow> BloodPressureReading list \<Rightarrow> BloodPressureReading list"
where
  "combinations_diastolic cfg now s d combinations =
     (if d \<le> max_of (diastolic_range cfg)
      then combinations_diastolic cfg now s (d + 1)
             (if isValidPulsePreasure cfg s d
              then combinations @
                     [\<lparr> systolic = s, diastolic = d,
                        timestamp = now + int (length combinations) * 1000 \<rparr>]
              else combinations)
      else combinations)"
  by pat_completeness auto
termination
  by (relation "measure (\<lambda>(cfg, now, s, d, cs). nat (max_of (diastolic_range cfg) + 1 - d))") auto

declare combinations_diastolic.simps [simp del]

function combinations_systolic ::
  "BloodPressureConfig \<Rightarrow> int \<Rightarrow> int \<Rightarrow> BloodPressureReading list \<Rightarrow> BloodPressureReading list"
where
  "combinations_systolic cfg now s combinations =
     (if s \<le> max_of (systolic_range cfg)
      then combinations_systolic cfg now (s + 1)
             (combinations_diastolic cfg now s (min_of (diastolic_range cfg)) combinations)
      else combinations)"
  by pat_completeness auto
termination
  by (relation "measure (\<lambda>(cfg, now, s, cs). nat (max_of (systolic_range cfg) + 1 - s))") auto

declare combinations_systolic.simps [simp del]

definition generateAllCombinations :: "BloodPressureConfig \<Rightarrow> int \<Rightarrow> BloodPressureReading list" where
  "generateAllCombinations cfg now = combinations_systolic cfg now (min_of (systolic_range cfg)) []"

text \<open>The two loops of \<open>calculateExpectedCombinations\<close>, with the counter \<open>count\<close> (here \<open>cnt\<close>) as accumulator.\<close>

function count_diastolic :: "BloodPressureConfig \<Rightarrow> int \<Rightarrow> int \<Rightarrow> nat \<Rightarrow> nat" where
  "count_diastolic cfg s d cnt =
     (if d \<le> max_of (diastolic_range cfg)
      then count_diastolic cfg s (d + 1) (if isValidPulsePreasure cfg s d then cnt + 1 else cnt)
      else cnt)"
  by pat_completeness auto
termination
  by (relation "measure (\<lambda>(cfg, s, d, c). nat (max_of (diastolic_range cfg) + 1 - d))") auto

declare count_diastolic.simps [simp del]

function count_systolic :: "BloodPressureConfig \<Rightarrow> int \<Rightarrow> nat \<Rightarrow> nat" where
  "count_systolic cfg s cnt =
     (if s \<le> max_of (systolic_range cfg)
      then count_systolic cfg (s + 1) (count_diastolic cfg s (min_of (diastolic_range cfg)) cnt)
      else cnt)"
  by pat_completeness auto
termination
  by (relation "measure (\<lambda>(cfg, s, c). nat (max_of (systolic_range cfg) + 1 - s))") auto

declare count_systolic.simps [simp del]

definition calculateExpectedCombinations :: "BloodPressureConfig \<Rightarrow> nat" where
  "calculateExpectedCombinations cfg = count_systolic cfg (min_of (systolic_range cfg)) 0"

subsection \<open>Shuffle\<close>

text \<open>
  \<open>Math.random()\<close> returns a number \<open>r\<close> with \<open>0 \<le> r < 1\<close>. The type \<open>unit_interval\<close> holds
  exactly these values, and a random source is the sequence of the values that successive
  calls return.
\<close>

typedef unit_interval = "{r :: real. 0 \<le> r \<and> r < 1}"
  by (rule exI [of _ 0]) simp

setup_lifting type_definition_unit_interval

type_synonym random_source = "nat \<Rightarrow> unit_interval"

text \<open>\<open>Math.floor(Math.random() * n)\<close>, for the \<open>k\<close>-th call of \<open>Math.random\<close>.\<close>

definition random_index :: "random_source \<Rightarrow> nat \<Rightarrow> nat \<Rightarrow> nat" where
  "random_index rnd k n = nat \<lfloor>Rep_unit_interval (rnd k) * real n\<rfloor>"

text \<open>
  The loop of \<open>shuffleArray\<close> on the copy \<open>shuffled\<close>: \<open>i\<close> runs from \<open>shuffled.length - 1\<close> down
  to 1, the loop ends at \<open>i = 0\<close> (and does not run for an empty array, where the source
  starts at \<open>-1\<close>). The destructuring assignment reads \<open>shuffled[j]\<close> and \<open>shuffled[i]\<close>
  first, then writes index \<open>i\<close>, then index \<open>j\<close>. \<open>k\<close> counts the calls of \<open>Math.random\<close>.
\<close>

fun shuffle_loop :: "random_source \<Rightarrow> nat \<Rightarrow> nat \<Rightarrow> 'a list \<Rightarrow> 'a list" where
  "shuffle_loop rnd k 0 shuffled = shuffled"
| "shuffle_loop rnd k (Suc i') shuffled =
     (let i = Suc i';
          j = random_index rnd k (i + 1)
      in shuffle_loop rnd (Suc k) i' (shuffled[i := shuffled ! j, j := shuffled ! i]))"

definition shuffleArray :: "random_source \<Rightarrow> 'a list \<Rightarrow> 'a list" where
  "shuffleArray rnd array = shuffle_loop rnd 0 (length array - 1) array"

subsection \<open>Dataset generation\<close>

text \<open>
  The body of the \<open>try\<close> block raises nowhere (it pushes to an array, compares two lengths and
  swaps array cells), so the \<open>catch\<close> branch has no counterpart in the model.
\<close>

definition generateBloodPressureDataset ::
  "BloodPressureConfig \<Rightarrow> int \<Rightarrow> random_source \<Rightarrow> DatasetResult" where
  "generateBloodPressureDataset cfg now rnd =
     (let allCombinations = generateAllCombinations cfg now;
          expectedCount = calculateExpectedCombinations cfg
      in if length allCombinations \<noteq> expectedCount
         then Inl \<lparr> error_type = GENERATION_ERROR,
                    message = ''Dataset generation failed: expected ''
                      @ Number_toString (int expectedCount) @ '' combinations, got ''
                      @ Number_toString (int (length allCombinations)),
                    details = Some ''The blood pressure range calculations may be incorrect'' \<rparr>
         else Inr (shuffleArray rnd allCombinations))"

subsection \<open>Reading access and validation\<close>

text \<open>
  A value that may be \<open>null\<close> or \<open>undefined\<close>. Reading an array at an index that is not one of
  \<open>0 .. length - 1\<close> gives \<open>undefined\<close>.
\<close>

datatype 'a nullable = Null | Undefined | Value 'a

definition array_get :: "'a list \<Rightarrow> int \<Rightarrow> 'a nullable" where
  "array_get xs i = (if 0 \<le> i \<and> i < int (length xs) then Value (xs ! nat i) else Undefined)"

text \<open>
  The remainder operator \<open>%\<close> of JavaScript truncates: the result has the sign of the
  dividend (\<open>-1 % 3\<close> is \<open>-1\<close>; \<open>-3 % 3\<close> is \<open>-0\<close>, which indexes like \<open>0\<close>).
\<close>

definition js_rem :: "int \<Rightarrow> int \<Rightarrow> int" where
  "js_rem a b = (if a < 0 then - ((- a) mod \<bar>b\<bar>) else a mod \<bar>b\<bar>)"

text \<open>
  The parameters \<open>dataset\<close> and \<open>reading\<close> below are objects by their types, so the tests
  \<open>!dataset\<close> and \<open>!reading\<close> of the source are false; \<open>index\<close> is an integer.
\<close>

definition getReadingAtIndex :: "BloodPressureReading list \<Rightarrow> int \<Rightarrow> BloodPressureReading nullable" where
  "getReadingAtIndex dataset index =
     (if length dataset = 0 then Null
      else let normalizedIndex = js_rem index (int (length dataset))
           in array_get dataset normalizedIndex)"

definition validateReading :: "BloodPressureConfig \<Rightarrow> BloodPressureReading \<Rightarrow> bool" where
  "validateReading cfg reading =
     (if systolic reading < min_of (systolic_range cfg) \<or> systolic reading > max_of (systolic_range cfg)
      then False
      else if diastolic reading < min_of (diastolic_range cfg) \<or> diastolic reading > max_of (diastolic_range cfg)
      then False
      else if \<not> isValidPulsePreasure cfg (systolic reading) (diastolic reading) then False
      else True)"

subsection \<open>Arrays as objects: the shuffle on a heap\<close>

text \<open>
  An array is an object: \<open>shuffleArray\<close> receives a reference, copies the array with
  \<open>[...array]\<close> and swaps cells of the copy in place. To state what it does to the array it was
  given, the heap is the list of the arrays allocated so far and a reference is a position in
  it; allocation appends. \<open>shuffle_loop_heap\<close> is the loop of \<open>shuffleArray\<close> on the cell
  \<open>shuffled\<close> of the heap, with the two reads and the two writes of the swap in order.
\<close>

type_synonym 'a heap = "'a list list"

fun shuffle_loop_heap :: "random_source \<Rightarrow> nat \<Rightarrow> nat \<Rightarrow> nat \<Rightarrow> 'a heap \<Rightarrow> 'a heap" where
  "shuffle_loop_heap rnd k 0 shuffled h = h"
| "shuffle_loop_heap rnd k (Suc i') shuffled h =
     (let i = Suc i';
          j = random_index rnd k (i + 1);
          vj = h ! shuffled ! j;
          vi = h ! shuffled ! i;
          h1 = h[shuffled := (h ! shuffled)[i := vj]];
          h2 = h1[shuffled := (h1 ! shuffled)[j := vi]]
      in shuffle_loop_heap rnd (Suc k) i' shuffled h2)"

definition shuffleArray_heap :: "random_source \<Rightarrow> nat \<Rightarrow> 'a heap \<Rightarrow> nat \<times> 'a heap" where
  "shuffleArray_heap rnd array h =
     (let shuffled = length h;
          h0 = h @ [h ! array]
      in (shuffled, shuffle_loop_heap rnd 0 (length (h0 ! shuffled) - 1) shuffled h0))"

section \<open>The host platform\<close>

text \<open>
  The session store runs on functions that the JavaScript host provides and that are not
  code of the repository: \<open>localStorage\<close>, \<open>parseInt\<close>, \<open>JSON.stringify\<close> and \<open>JSON.parse\<close>.
  They are modelled here after their ECMAScript and Web Storage definitions, as far as the
  session store uses them. Strings are \<open>string\<close> (8-bit characters), which covers every text
  the session store writes.
\<close>

subsection \<open>Exceptions and \<open>localStorage\<close>\<close>

text \<open>
  A thrown value is an \<open>Error\<close> object with its message, or a value that is not an \<open>Error\<close>
  (the \<open>catch\<close> clauses of the source test \<open>error instanceof Error\<close>).
\<close>

datatype js_exception = JsError string | ThrownValue

text \<open>
  The host as the session store sees it: whether \<open>window\<close> is defined; whether access to
  \<open>localStorage\<close> is denied (then every use throws the given exception); the stored items;
  and the host's decision to refuse a write (a quota, for instance), which may depend on the
  stored items, the key and the value, and throws the given exception.
\<close>

record host =
  window_defined :: bool
  storage_denied :: "js_exception option"
  items :: "string \<rightharpoonup> string"
  write_refused :: "(string \<rightharpoonup> string) \<Rightarrow> string \<Rightarrow> string \<Rightarrow> js_exception option"

definition setItem :: "string \<Rightarrow> string \<Rightarrow> host \<Rightarrow> js_exception + host" where
  "setItem k v h =
     (case storage_denied h of
        Some e \<Rightarrow> Inl e
      | None \<Rightarrow>
          (case write_refused h (items h) k v of
             Some e \<Rightarrow> Inl e
           | None \<Rightarrow> Inr (h\<lparr>items := (items h)(k \<mapsto> v)\<rparr>)))"

definition getItem :: "string \<Rightarrow> host \<Rightarrow> js_exception + string option" where
  "getItem k h = (case storage_denied h of Some e \<Rightarrow> Inl e | None \<Rightarrow> Inr (items h k))"

definition removeItem :: "string \<Rightarrow> host \<Rightarrow> js_exception + host" where
  "removeItem k h =
     (case storage_denied h of Some e \<Rightarrow> Inl e | None \<Rightarrow> Inr (h\<lparr>items := (items h)(k := None)\<rparr>))"

subsection \<open>Numbers that \<open>parseInt\<close> returns\<close>

text \<open>
  \<open>parseInt\<close> returns a double: \<open>NaN\<close>, an infinity, negative zero, or a finite double whose
  value is an integer (\<open>Num\<close>). An integer is converted to the nearest double, ties to the
  even significand: below \<open>2^53\<close> every integer is a double; a larger one with \<open>b\<close> bits is
  rounded to a multiple of \<open>2^(b - 53)\<close>, and a result of \<open>2^1024\<close> or more is infinite.
\<close>

datatype js_number = NaN | PosInfinity | NegInfinity | NegZero | Num int

fun nat_bits :: "nat \<Rightarrow> nat" where
  "nat_bits n = (if n = 0 then 0 else Suc (nat_bits (n div 2)))"

declare nat_bits.simps [simp del]

definition round_to_double :: "nat \<Rightarrow> nat option" where
  "round_to_double m =
     (let b = nat_bits m
      in if b \<le> 53 then Some m
         else let ulp = 2 ^ (b - 53);
                  q = m div ulp;
                  r = m mod ulp;
                  q1 = (if 2 * r < ulp then q
                        else if ulp < 2 * r then q + 1
                        else if even q then q else q + 1);
                  v = q1 * ulp
              in if 2 ^ 1024 \<le> v then None else Some v)"

text \<open>The double of \<open>sign * mathInt\<close>; \<open>parseInt\<close> returns \<open>-0\<close> for a negative sign and 0.\<close>

definition js_integer :: "bool \<Rightarrow> nat \<Rightarrow> js_number" where
  "js_integer negative m =
     (if m = 0 then (if negative then NegZero else Num 0)
      else case round_to_double m of
             None \<Rightarrow> (if negative then NegInfinity else PosInfinity)
           | Some v \<Rightarrow> Num (if negative then - int v else int v))"

subsection \<open>\<open>parseInt(string, 10)\<close>\<close>

text \<open>
  A character of a \<open>string\<close> stands for a UTF-16 code unit below 256. \<open>parseInt\<close> with radix
  10 trims leading white space (\<open>StrWhiteSpaceChar\<close>; below 256 these are the code units
  9 to 13, 32 and 160, the no-break space), reads an optional sign and then the longest prefix
  of decimal digits; what follows the digits is ignored (\<open>12abc\<close> gives 12, \<open>3.9\<close> gives
  3). Without a digit the result is \<open>NaN\<close>. Otherwise it is the double of the integer that
  the digits denote. (ECMAScript lets an implementation replace the digits after the 20th
  by zeros; the model takes the digits as they are, as V8 does.)
\<close>

definition is_digit :: "char \<Rightarrow> bool" where
  "is_digit c = (c \<in> set ''0123456789'')"

definition digit_value :: "char \<Rightarrow> nat" where
  "digit_value c = of_char c - 48"

definition digits_value :: "string \<Rightarrow> nat" where
  "digits_value ds = foldl (\<lambda>acc c. 10 * acc + digit_value c) 0 ds"

definition is_StrWhiteSpaceChar :: "char \<Rightarrow> bool" where
  "is_StrWhiteSpaceChar c =
     (c \<in> set [CHR 0x09, CHR 0x0A, CHR 0x0B, CHR 0x0C, CHR 0x0D, CHR '' '', CHR 0xA0])"

definition parseInt :: "string \<Rightarrow> js_number" where
  "parseInt inputString =
     (let s = dropWhile is_StrWhiteSpaceChar inputString;
          (negative, s1) = (case s of
                              c # rest \<Rightarrow> if c = CHR ''-'' then (True, rest)
                                          else if c = CHR ''+'' then (False, rest) else (False, s)
                            | [] \<Rightarrow> (False, s));
          z = takeWhile is_digit s1
      in if z = [] then NaN else js_integer negative (digits_value z))"

subsection \<open>JSON\<close>

text \<open>
  A JSON value. A number is the real number that its literal denotes (JavaScript rounds it to
  a double; integers below \<open>2^53\<close> are exact). An object is a finite map from property names
  to values: a repeated name keeps the last value.
\<close>

datatype json =
    JNull
  | JBool bool
  | JNumber real
  | JString string
  | JArray "json list"
  | JObject "(string, json) fmap"

text \<open>
  \<open>JSON.stringify\<close> applied to a dataset: an array of objects with the properties
  \<open>systolic\<close>, \<open>diastolic\<close> and \<open>timestamp\<close>, in the order in which
  \<open>generateAllCombinations\<close> creates them, without white space; an integer is written in
  decimal.
\<close>

definition dquote :: char where
  "dquote = CHR 0x22"

definition quoted :: "string \<Rightarrow> string" where
  "quoted s = dquote # s @ [dquote]"

definition stringify_reading :: "BloodPressureReading \<Rightarrow> string" where
  "stringify_reading r =
     ''{'' @ quoted ''systolic'' @ '':'' @ Number_toString (systolic r) @
     '','' @ quoted ''diastolic'' @ '':'' @ Number_toString (diastolic r) @
     '','' @ quoted ''timestamp'' @ '':'' @ Number_toString (timestamp r) @ ''}''"

fun join_comma :: "string list \<Rightarrow> string" where
  "join_comma [] = []"
| "join_comma [x] = x"
| "join_comma (x # y # ys) = x @ '','' @ join_comma (y # ys)"

definition JSON_stringify :: "BloodPressureReading list \<Rightarrow> string" where
  "JSON_stringify dataset = ''['' @ join_comma (map stringify_reading dataset) @ '']''"

text \<open>
  \<open>JSON.parse\<close>, as a recursive-descent parser of the JSON grammar: white space, the literals
  \<open>null\<close>, \<open>true\<close> and \<open>false\<close>, numbers (no leading zeros; optional fraction and exponent),
  strings with escapes (the code unit of a unicode escape is kept modulo 256, the size of a
  character of \<open>string\<close>), arrays and objects. Each parser returns the value and the rest
  of the text, or \<open>None\<close> at a syntax error.
\<close>

definition is_json_ws :: "char \<Rightarrow> bool" where
  "is_json_ws c = (c \<in> set [CHR 0x09, CHR 0x0A, CHR 0x0D, CHR '' ''])"

definition skip_ws :: "string \<Rightarrow> string" where
  "skip_ws cs = dropWhile is_json_ws cs"

definition is_hex :: "char \<Rightarrow> bool" where
  "is_hex c = (c \<in> set ''0123456789abcdefABCDEF'')"

definition hex_value :: "char \<Rightarrow> nat" where
  "hex_value c = (if is_digit c then of_char c - 48
                  else if c \<in> set ''abcdef'' then of_char c - 87 else of_char c - 55)"

definition unescape :: "char \<Rightarrow> char option" where
  "unescape e =
     (if e = dquote then Some dquote
      else if e = CHR 0x5C then Some (CHR 0x5C)
      else if e = CHR ''/'' then Some (CHR ''/'')
      else if e = CHR ''b'' then Some (CHR 0x08)
      else if e = CHR ''f'' then Some (CHR 0x0C)
      else if e = CHR ''n'' then Some (CHR 0x0A)
      else if e = CHR ''r'' then Some (CHR 0x0D)
      else if e = CHR ''t'' then Some (CHR 0x09)
      else None)"

fun parse_string_body :: "string \<Rightarrow> (string \<times> string) option" where
  "parse_string_body [] = None"
| "parse_string_body (c # cs) =
     (if c = dquote then Some ([], cs)
      else if c = CHR 0x5C then
        (case cs of
           [] \<Rightarrow> None
         | e # cs1 \<Rightarrow>
             if e = CHR ''u'' then
               (case cs1 of
                  a # b # c # d # cs2 \<Rightarrow>
                    if is_hex a \<and> is_hex b \<and> is_hex c \<and> is_hex d
                    then map_option (apfst ((#) (char_of (((hex_value a * 16 + hex_value b) * 16 + hex_value c) * 16 + hex_value d))))
                           (parse_string_body cs2)
                    else None
                | _ \<Rightarrow> None)
             else (case unescape e of
                     None \<Rightarrow> None
                   | Some ch \<Rightarrow> map_option (apfst ((#) ch)) (parse_string_body cs1)))
      else if (of_char c :: nat) < 32 then None
      else map_option (apfst ((#) c)) (parse_string_body cs))"

definition parse_int_part :: "string \<Rightarrow> (nat \<times> string) option" where
  "parse_int_part cs =
     (case cs of
        [] \<Rightarrow> None
      | c # rest \<Rightarrow>
          if c = CHR ''0'' then Some (0, rest)
          else if is_digit c then Some (digits_value (takeWhile is_digit cs), dropWhile is_digit cs)
          else None)"

definition parse_frac :: "string \<Rightarrow> (real \<times> string) option" where
  "parse_frac cs =
     (case cs of
        c # rest \<Rightarrow>
          if c = CHR ''.'' then
            (let ds = takeWhile is_digit rest
             in if ds = [] then None
                else Some (real (digits_value ds) / 10 ^ length ds, dropWhile is_digit rest))
          else Some (0, cs)
      | [] \<Rightarrow> Some (0, cs))"

definition parse_exp :: "string \<Rightarrow> (int \<times> string) option" where
  "parse_exp cs =
     (case cs of
        c # rest \<Rightarrow>
          if c = CHR ''e'' \<or> c = CHR ''E'' then
            (let (sign, rest1) =
                   (case rest of
                      s # r \<Rightarrow> if s = CHR ''-'' then (- 1, r) else if s = CHR ''+'' then (1, r) else (1 :: int, rest)
                    | [] \<Rightarrow> (1, rest));
                 ds = takeWhile is_digit rest1
             in if ds = [] then None
                else Some (sign * int (digits_value ds), dropWhile is_digit rest1))
          else Some (0, cs)
      | [] \<Rightarrow> Some (0, cs))"

definition pow10 :: "int \<Rightarrow> real" where
  "pow10 e = (if 0 \<le> e then 10 ^ nat e else 1 / 10 ^ nat (- e))"

definition parse_number :: "string \<Rightarrow> (json \<times> string) option" where
  "parse_number cs =
     (let (neg, cs1) = (case cs of c # rest \<Rightarrow> if c = CHR ''-'' then (True, rest) else (False, cs)
                                 | [] \<Rightarrow> (False, cs))
      in case parse_int_part cs1 of
           None \<Rightarrow> None
         | Some (ip, cs2) \<Rightarrow>
             (case parse_frac cs2 of
                None \<Rightarrow> None
              | Some (fr, cs3) \<Rightarrow>
                  (case parse_exp cs3 of
                     None \<Rightarrow> None
                   | Some (ex, cs4) \<Rightarrow>
                       Some (JNumber ((if neg then - 1 else 1) * (real ip + fr) * pow10 ex), cs4))))"

text \<open>
  The parsers of values, of the elements of an array after \<open>[\<close> and of the members of an
  object after \<open>{\<close> call one another; \<open>fuel\<close> bounds the number of nested calls. A call on a
  text of \<open>n\<close> characters needs at most \<open>2 * n + 1\<close> of it, so \<open>JSON_parse\<close> never lacks
  fuel. A text with anything but white space after the value is a syntax error. The message
  of the \<open>SyntaxError\<close> is the engine's own; a fixed text stands for it.
\<close>

fun parse_value :: "nat \<Rightarrow> string \<Rightarrow> (json \<times> string) option"
  and parse_elements :: "nat \<Rightarrow> json list \<Rightarrow> string \<Rightarrow> (json \<times> string) option"
  and parse_members :: "nat \<Rightarrow> (string, json) fmap \<Rightarrow> string \<Rightarrow> (json \<times> string) option"
where
  "parse_value 0 cs = None"
| "parse_value (Suc fuel) cs =
     (case skip_ws cs of
        [] \<Rightarrow> None
      | c # rest \<Rightarrow>
          if c = CHR ''['' then
            (case skip_ws rest of
               [] \<Rightarrow> None
             | d # rest1 \<Rightarrow> if d = CHR '']'' then Some (JArray [], rest1)
                            else parse_elements fuel [] rest)
          else if c = CHR ''{'' then
            (case skip_ws rest of
               [] \<Rightarrow> None
             | d # rest1 \<Rightarrow> if d = CHR ''}'' then Some (JObject fmempty, rest1)
                            else parse_members fuel fmempty rest)
          else if c = dquote then map_option (apfst JString) (parse_string_body rest)
          else if take 4 (c # rest) = ''null'' then Some (JNull, drop 4 (c # rest))
          else if take 4 (c # rest) = ''true'' then Some (JBool True, drop 4 (c # rest))
          else if take 5 (c # rest) = ''false'' then Some (JBool False, drop 5 (c # rest))
          else parse_number (c # rest))"
| "parse_elements 0 acc cs = None"
| "parse_elements (Suc fuel) acc cs =
     (case parse_value fuel cs of
        None \<Rightarrow> None
      | Some (v, rest) \<Rightarrow>
          (case skip_ws rest of
             [] \<Rightarrow> None
           | c # rest1 \<Rightarrow>
               if c = CHR '','' then parse_elements fuel (acc @ [v]) rest1
               else if c = CHR '']'' then Some (JArray (acc @ [v]), rest1)
               else None))"
| "parse_members 0 acc cs = None"
| "parse_members (Suc fuel) acc cs =
     (case skip_ws cs of
        [] \<Rightarrow> None
      | q # rest \<Rightarrow>
          if q \<noteq> dquote then None
          else (case parse_string_body rest of
                  None \<Rightarrow> None
                | Some (k, rest1) \<Rightarrow>
                    (case skip_ws rest1 of
                       [] \<Rightarrow> None
                     | c # rest2 \<Rightarrow>
                         if c \<noteq> CHR '':'' then None
                         else (case parse_value fuel rest2 of
                                 None \<Rightarrow> None
                               | Some (v, rest3) \<Rightarrow>
                                   (case skip_ws rest3 of
                                      [] \<Rightarrow> None
                                    | d # rest4 \<Rightarrow>
                                        if d = CHR '','' then parse_members fuel (fmupd k v acc) rest4
                                        else if d = CHR ''}'' then Some (JObject (fmupd k v acc), rest4)
                                        else None)))))"

definition JSON_parse :: "string \<Rightarrow> js_exception + json" where
  "JSON_parse s =
     (case parse_value (2 * length s + 2) s of
        None \<Rightarrow> Inl (JsError ''SyntaxError'')
      | Some (v, rest) \<Rightarrow> if skip_ws rest = [] then Inr v else Inl (JsError ''SyntaxError''))"

text \<open>
  A dataset as a value of the language: what \<open>JSON.parse\<close> must return for the result to be
  the dataset, field for field.
\<close>

definition reading_value :: "BloodPressureReading \<Rightarrow> json" where
  "reading_value r =
     JObject (fmupd ''timestamp'' (JNumber (of_int (timestamp r)))
             (fmupd ''diastolic'' (JNumber (of_int (diastolic r)))
             (fmupd ''systolic'' (JNumber (of_int (systolic r))) fmempty)))"

definition dataset_value :: "BloodPressureReading list \<Rightarrow> json" where
  "dataset_value dataset = JArray (map reading_value dataset)"

section \<open>Session Store (storageManager.ts)\<close>

text \<open>
  Every operation takes the host and returns its result together with the host after the
  call: the availability probe and the store operations write to \<open>localStorage\<close>.
\<close>

record StorageKeys =
  dataset_key :: string
  index_key :: string
  timestamp_key :: string

definition STORAGE_KEYS :: StorageKeys where
  "STORAGE_KEYS = \<lparr> dataset_key = ''bp-dataset'', index_key = ''bp-index'', timestamp_key = ''bp-timestamp'' \<rparr>"

text \<open>
  \<open>isLocalStorageAvailable\<close>: false when \<open>window\<close> is undefined; otherwise the probe writes
  and removes a test key, and any exception makes the result false.
\<close>

definition isLocalStorageAvailable :: "host \<Rightarrow> bool \<times> host" where
  "isLocalStorageAvailable h =
     (if \<not> window_defined h then (False, h)
      else let test = ''__localStorage_test__''
           in case setItem test test h of
                Inl e \<Rightarrow> (False, h)
              | Inr h1 \<Rightarrow>
                  (case removeItem test h1 of
                     Inl e \<Rightarrow> (False, h1)
                   | Inr h2 \<Rightarrow> (True, h2)))"

definition createStorageError :: "string \<Rightarrow> string option \<Rightarrow> AppError" where
  "createStorageError msg det = \<lparr> error_type = STORAGE_ERROR, message = msg, details = det \<rparr>"

text \<open>\<open>error instanceof Error ? error.message : fallback\<close>, the detail of a caught exception.\<close>

definition error_message_or :: "js_exception \<Rightarrow> string \<Rightarrow> string" where
  "error_message_or e fallback = (case e of JsError m \<Rightarrow> m | ThrownValue \<Rightarrow> fallback)"

definition safeJsonParse :: "string \<Rightarrow> json StorageResult" where
  "safeJsonParse jsonString =
     (case JSON_parse jsonString of
        Inr data \<Rightarrow> Inr data
      | Inl e \<Rightarrow> Inl (createStorageError ''Failed to parse JSON data''
                       (Some (error_message_or e ''Invalid JSON format''))))"

text \<open>
  In each operation the code after the probe is in a \<open>try\<close> block whose \<open>catch\<close> returns a
  \<open>STORAGE_ERROR\<close>; the branches \<open>Inl e\<close> below are these \<open>catch\<close> clauses.
  \<open>!jsonData\<close> in \<open>getDataset\<close> holds for \<open>null\<close> and for the empty string.
  \<open>getDataset\<close> casts the parsed value to a dataset without a check, so its data is a JSON
  value.
\<close>

definition storeDataset :: "BloodPressureReading list \<Rightarrow> host \<Rightarrow> unit StorageResult \<times> host" where
  "storeDataset dataset h =
     (case isLocalStorageAvailable h of
        (False, h1) \<Rightarrow> (Inl (createStorageError ''localStorage is not available'' None), h1)
      | (True, h1) \<Rightarrow>
          (let jsonData = JSON_stringify dataset
           in case setItem (dataset_key STORAGE_KEYS) jsonData h1 of
                Inr h2 \<Rightarrow> (Inr (), h2)
              | Inl e \<Rightarrow> (Inl (createStorageError ''Failed to store dataset''
                                 (Some (error_message_or e ''Unknown storage error''))), h1)))"

definition getDataset :: "host \<Rightarrow> json StorageResult \<times> host" where
  "getDataset h =
     (case isLocalStorageAvailable h of
        (False, h1) \<Rightarrow> (Inl (createStorageError ''localStorage is not available'' None), h1)
      | (True, h1) \<Rightarrow>
          (case getItem (dataset_key STORAGE_KEYS) h1 of
             Inr None \<Rightarrow> (Inl (createStorageError ''No dataset found in storage'' None), h1)
           | Inr (Some jsonData) \<Rightarrow>
               (if jsonData = [] then (Inl (createStorageError ''No dataset found in storage'' None), h1)
                else (safeJsonParse jsonData, h1))
           | Inl e \<Rightarrow> (Inl (createStorageError ''Failed to retrieve dataset''
                              (Some (error_message_or e ''Unknown retrieval error''))), h1)))"

definition storeCurrentIndex :: "int \<Rightarrow> host \<Rightarrow> unit StorageResult \<times> host" where
  "storeCurrentIndex index h =
     (case isLocalStorageAvailable h of
        (False, h1) \<Rightarrow> (Inl (createStorageError ''localStorage is not available'' None), h1)
      | (True, h1) \<Rightarrow>
          (case setItem (index_key STORAGE_KEYS) (Number_toString index) h1 of
             Inr h2 \<Rightarrow> (Inr (), h2)
           | Inl e \<Rightarrow> (Inl (createStorageError ''Failed to store current index''
                              (Some (error_message_or e ''Unknown storage error''))), h1)))"

definition getCurrentIndex :: "host \<Rightarrow> js_number StorageResult \<times> host" where
  "getCurrentIndex h =
     (case isLocalStorageAvailable h of
        (False, h1) \<Rightarrow> (Inl (createStorageError ''localStorage is not available'' None), h1)
      | (True, h1) \<Rightarrow>
          (case getItem (index_key STORAGE_KEYS) h1 of
             Inr None \<Rightarrow> (Inl (createStorageError ''No index found in storage'' None), h1)
           | Inr (Some indexString) \<Rightarrow>
               (let index = parseInt indexString
                in if index = NaN
                   then (Inl (createStorageError ''Invalid index format in storage'' None), h1)
                   else (Inr index, h1))
           | Inl e \<Rightarrow> (Inl (createStorageError ''Failed to retrieve current index''
                              (Some (error_message_or e ''Unknown retrieval error''))), h1)))"

definition storeTimestamp :: "int \<Rightarrow> host \<Rightarrow> unit StorageResult \<times> host" where
  "storeTimestamp ts h =
     (case isLocalStorageAvailable h of
        (False, h1) \<Rightarrow> (Inl (createStorageError ''localStorage is not available'' None), h1)
      | (True, h1) \<Rightarrow>
          (case setItem (timestamp_key STORAGE_KEYS) (Number_toString ts) h1 of
             Inr h2 \<Rightarrow> (Inr (), h2)
           | Inl e \<Rightarrow> (Inl (createStorageError ''Failed to store timestamp''
                              (Some (error_message_or e ''Unknown storage error''))), h1)))"

definition getTimestamp :: "host \<Rightarrow> js_number StorageResult \<times> host" where
  "getTimestamp h =
     (case isLocalStorageAvailable h of
        (False, h1) \<Rightarrow> (Inl (createStorageError ''localStorage is not available'' None), h1)
      | (True, h1) \<Rightarrow>
          (case getItem (timestamp_key STORAGE_KEYS) h1 of
             Inr None \<Rightarrow> (Inl (createStorageError ''No timestamp found in storage'' None), h1)
           | Inr (Some timestampString) \<Rightarrow>
               (let ts = parseInt timestampString
                in if ts = NaN
                   then (Inl (createStorageError ''Invalid timestamp format in storage'' None), h1)
                   else (Inr ts, h1))
           | Inl e \<Rightarrow> (Inl (createStorageError ''Failed to retrieve timestamp''
                              (Some (error_message_or e ''Unknown retrieval error''))), h1)))"

definition clearStorage :: "host \<Rightarrow> unit StorageResult \<times> host" where
  "clearStorage h =
     (case isLocalStorageAvailable h of
        (False, h1) \<Rightarrow> (Inl (createStorageError ''localStorage is not available'' None), h1)
      | (True, h1) \<Rightarrow>
          (case removeItem (dataset_key STORAGE_KEYS) h1 of
             Inl e \<Rightarrow> (Inl (createStorageError ''Failed to clear storage''
                              (Some (error_message_or e ''Unknown error''))), h1)
           | Inr h2 \<Rightarrow>
               (case removeItem (index_key STORAGE_KEYS) h2 of
                  Inl e \<Rightarrow> (Inl (createStorageError ''Failed to clear storage''
                                   (Some (error_message_or e ''Unknown error''))), h2)
                | Inr h3 \<Rightarrow>
                    (case removeItem (timestamp_key STORAGE_KEYS) h3 of
                       Inl e \<Rightarrow> (Inl (createStorageError ''Failed to clear storage''
                                        (Some (error_message_or e ''Unknown error''))), h3)
                     | Inr h4 \<Rightarrow> (Inr (), h4)))))"

text \<open>
  \<open>isAppInitialized\<close> reads the three slots outside any \<open>try\<close> block: an exception of
  \<open>getItem\<close> would leave the function, which is the result \<open>Inl\<close>.
\<close>

definition isAppInitialized :: "host \<Rightarrow> (js_exception + bool) \<times> host" where
  "isAppInitialized h =
     (case isLocalStorageAvailable h of
        (False, h1) \<Rightarrow> (Inr False, h1)
      | (True, h1) \<Rightarrow>
          (case getItem (dataset_key STORAGE_KEYS) h1 of
             Inl e \<Rightarrow> (Inl e, h1)
           | Inr d \<Rightarrow>
               (case getItem (index_key STORAGE_KEYS) h1 of
                  Inl e \<Rightarrow> (Inl e, h1)
                | Inr i \<Rightarrow>
                    (case getItem (timestamp_key STORAGE_KEYS) h1 of
                       Inl e \<Rightarrow> (Inl e, h1)
                     | Inr t \<Rightarrow>
                         (let hasDataset = (d \<noteq> None);
                              hasIndex = (i \<noteq> None);
                              hasTimestamp = (t \<noteq> None)
                          in (Inr (hasDataset \<and> hasIndex \<and> hasTimestamp), h1))))))"

section \<open>Reference notions and sample inputs\<close>

text \<open>
  The admissible combination space in the words of the specification: every pair of the
  systolic range and the diastolic range, kept when its pulse pressure is in range.
\<close>

definition admissible_pairs :: "BloodPressureConfig \<Rightarrow> (int \<times> int) list" where
  "admissible_pairs cfg =
     filter (\<lambda>(s, d). isValidPulsePreasure cfg s d)
       (List.product [min_of (systolic_range cfg) .. max_of (systolic_range cfg)]
                     [min_of (diastolic_range cfg) .. max_of (diastolic_range cfg)])"

definition pair_of :: "BloodPressureReading \<Rightarrow> int \<times> int" where
  "pair_of r = (systolic r, diastolic r)"

text \<open>A random source whose every draw is 0, and one whose every draw is one half.\<close>

lift_definition zero_draw :: unit_interval is "0 :: real"
  by simp

lift_definition half_draw :: unit_interval is "1 / 2 :: real"
  by simp

definition zero_source :: random_source where
  "zero_source k = zero_draw"

definition half_source :: random_source where
  "half_source k = half_draw"

text \<open>A configuration with three admissible pairs, and one with none.\<close>

definition small_config :: BloodPressureConfig where
  "small_config = \<lparr> systolic_range = \<lparr> min_of = 90, max_of = 91 \<rparr>,
                    diastolic_range = \<lparr> min_of = 70, max_of = 71 \<rparr>,
                    pulsePresssure = \<lparr> min_of = 20, max_of = 60 \<rparr> \<rparr>"


text \<open>
  Hosts: one without \<open>window\<close> (server-side rendering), one that denies access to
  \<open>localStorage\<close>, and a browser that holds the given items and refuses no write.
\<close>

definition headless_host :: host where
  "headless_host = \<lparr> window_defined = False, storage_denied = None, items = Map.empty,
                      write_refused = (\<lambda>m k v. None) \<rparr>"

definition denied_host :: host where
  "denied_host = \<lparr> window_defined = True, storage_denied = Some (JsError ''The operation is insecure.''),
                    items = Map.empty, write_refused = (\<lambda>m k v. None) \<rparr>"

definition browser_host :: "(string \<rightharpoonup> string) \<Rightarrow> host" where
  "browser_host m = \<lparr> window_defined = True, storage_denied = None, items = m,
                       write_refused = (\<lambda>m k v. None) \<rparr>"

text \<open>Predicates used in the proofs about the parser: the characters that may follow a number
  in the text of a dataset, and the characters that stand for themselves in a JSON string.\<close>

definition ends_number :: "char \<Rightarrow> bool" where
  "ends_number c = (c = CHR '','' \<or> c = CHR ''}'')"

definition plain_char :: "char \<Rightarrow> bool" where
  "plain_char c = (c \<noteq> dquote \<and> c \<noteq> CHR 0x5C \<and> \<not> (of_char c :: nat) < 32)"

section \<open>Properties of the Dataset Engine\<close>

subsection \<open>The enumeration and the count\<close>

lemma pairs_diastolic:
  "map pair_of (combinations_diastolic cfg now s d cs) =
     map pair_of cs @ map (Pair s) (filter (isValidPulsePreasure cfg s) [d .. max_of (diastolic_range cfg)])"
proof (induction cfg now s d cs rule: combinations_diastolic.induct)
  case (1 cfg now s d cs)
  show ?case
  proof (cases "d \<le> max_of (diastolic_range cfg)")
    case True
    then have u: "[d .. max_of (diastolic_range cfg)] = d # [d + 1 .. max_of (diastolic_range cfg)]"
      by (simp add: upto_rec1)
    show ?thesis
      by (subst combinations_diastolic.simps) (simp add: True 1 u pair_of_def)
  next
    case False
    then show ?thesis
      by (subst combinations_diastolic.simps) simp
  qed
qed

lemma pairs_systolic:
  "map pair_of (combinations_systolic cfg now s cs) =
     map pair_of cs @
     concat (map (\<lambda>s. map (Pair s) (filter (isValidPulsePreasure cfg s)
                       [min_of (diastolic_range cfg) .. max_of (diastolic_range cfg)]))
                 [s .. max_of (systolic_range cfg)])"
proof (induction cfg now s cs rule: combinations_systolic.induct)
  case (1 cfg now s cs)
  show ?case
  proof (cases "s \<le> max_of (systolic_range cfg)")
    case True
    then have u: "[s .. max_of (systolic_range cfg)] = s # [s + 1 .. max_of (systolic_range cfg)]"
      by (simp add: upto_rec1)
    show ?thesis
      by (subst combinations_systolic.simps) (simp add: True 1 u pairs_diastolic)
  next
    case False
    then show ?thesis
      by (subst combinations_systolic.simps) simp
  qed
qed

lemma filter_product:
  "filter (\<lambda>(x, y). P x y) (List.product xs ys) = concat (map (\<lambda>x. map (Pair x) (filter (P x) ys)) xs)"
  by (induction xs) (simp_all add: filter_map comp_def)

lemma pairs_generateAllCombinations:
  "map pair_of (generateAllCombinations cfg now) = admissible_pairs cfg"
  by (simp add: generateAllCombinations_def admissible_pairs_def pairs_systolic filter_product)

lemma count_diastolic_eq:
  "count_diastolic cfg s d c =
     c + length (filter (isValidPulsePreasure cfg s) [d .. max_of (diastolic_range cfg)])"
proof (induction cfg s d c rule: count_diastolic.induct)
  case (1 cfg s d c)
  show ?case
  proof (cases "d \<le> max_of (diastolic_range cfg)")
    case True
    then have u: "[d .. max_of (diastolic_range cfg)] = d # [d + 1 .. max_of (diastolic_range cfg)]"
      by (simp add: upto_rec1)
    show ?thesis
      by (subst count_diastolic.simps) (simp add: True 1 u)
  next
    case False
    then show ?thesis
      by (subst count_diastolic.simps) simp
  qed
qed

lemma count_systolic_eq:
  "count_systolic cfg s c =
     c + length (concat (map (\<lambda>s. map (Pair s) (filter (isValidPulsePreasure cfg s)
                       [min_of (diastolic_range cfg) .. max_of (diastolic_range cfg)]))
                 [s .. max_of (systolic_range cfg)]))"
proof (induction cfg s c rule: count_systolic.induct)
  case (1 cfg s c)
  show ?case
  proof (cases "s \<le> max_of (systolic_range cfg)")
    case True
    then have u: "[s .. max_of (systolic_range cfg)] = s # [s + 1 .. max_of (systolic_range cfg)]"
      by (simp add: upto_rec1)
    have "count_systolic cfg s c =
            count_systolic cfg (s + 1) (count_diastolic cfg s (min_of (diastolic_range cfg)) c)"
      by (subst count_systolic.simps) (simp add: True)
    also note 1 [OF True]
    finally show ?thesis
      by (simp add: u count_diastolic_eq)
  next
    case False
    then show ?thesis
      by (subst count_systolic.simps) simp
  qed
qed

lemma calculateExpectedCombinations_eq:
  "calculateExpectedCombinations cfg = length (admissible_pairs cfg)"
  by (simp add: calculateExpectedCombinations_def admissible_pairs_def count_systolic_eq filter_product)

lemma length_generateAllCombinations:
  "length (generateAllCombinations cfg now) = calculateExpectedCombinations cfg"
  using arg_cong [OF pairs_generateAllCombinations, of length cfg now]
  by (simp add: calculateExpectedCombinations_eq)

lemma count_CONFIG: "calculateExpectedCombinations CONFIG = 1161"
  by code_simp

text \<open>The count check of \<open>generateBloodPressureDataset\<close> passes for every configuration.\<close>

lemma generate_returns_shuffle:
  "generateBloodPressureDataset cfg now rnd = Inr (shuffleArray rnd (generateAllCombinations cfg now))"
  by (simp add: generateBloodPressureDataset_def Let_def length_generateAllCombinations)

subsection \<open>The shuffle\<close>

lemma random_index_le: "random_index rnd k (Suc i) \<le> i"
proof -
  have r: "0 \<le> Rep_unit_interval (rnd k)" "Rep_unit_interval (rnd k) < 1"
    using Rep_unit_interval [of "rnd k"] by auto
  have "Rep_unit_interval (rnd k) * real (Suc i) < real (Suc i)"
    using r by (simp add: mult_less_cancel_right2 del: of_nat_Suc)
  then have "\<lfloor>Rep_unit_interval (rnd k) * real (Suc i)\<rfloor> < int (Suc i)"
    by (simp add: floor_less_iff del: of_nat_Suc)
  then show ?thesis
    unfolding random_index_def by linarith
qed

lemma shuffle_loop_mset:
  "i < length xs \<or> i = 0 \<Longrightarrow> mset (shuffle_loop rnd k i xs) = mset xs"
proof (induction i arbitrary: k xs)
  case 0
  then show ?case by simp
next
  case (Suc i)
  then have len: "Suc i < length xs" by simp
  have j: "random_index rnd k (Suc i + 1) < length xs"
    using random_index_le [of rnd k "Suc i"] len by simp
  show ?case
    using Suc.IH [of "xs[Suc i := xs ! random_index rnd k (Suc i + 1),
                         random_index rnd k (Suc i + 1) := xs ! Suc i]" "Suc k"] len j
    by (simp add: Let_def mset_swap)
qed

lemma mset_shuffleArray: "mset (shuffleArray rnd xs) = mset xs"
  unfolding shuffleArray_def by (rule shuffle_loop_mset) (cases xs; simp)

lemma set_shuffleArray: "set (shuffleArray rnd xs) = set xs"
  using mset_shuffleArray [of rnd xs] by (rule mset_eq_setD)

lemma length_shuffleArray: "length (shuffleArray rnd xs) = length xs"
  using mset_shuffleArray [of rnd xs] by (rule mset_eq_length)

subsection \<open>Claims\<close>

text \<open>
  C1. When \<open>generateBloodPressureDataset\<close> succeeds, the length of the returned dataset is the
  count that \<open>calculateExpectedCombinations\<close> recomputes with its own double loop; that count
  is the number of pairs of the two ranges that pass the pulse-pressure predicate; and for the
  built-in configuration (systolic 90 to 140, diastolic 60 to 90, pulse pressure 20 to 60) it
  is exactly 1161.
\<close>

theorem dataset_length_is_recomputed_count:
  "(generateBloodPressureDataset cfg now rnd = Inr dataset \<longrightarrow>
      length dataset = calculateExpectedCombinations cfg)
   \<and> calculateExpectedCombinations cfg = length (admissible_pairs cfg)
   \<and> calculateExpectedCombinations CONFIG = 1161"
proof (intro conjI impI)
  assume "generateBloodPressureDataset cfg now rnd = Inr dataset"
  then have "dataset = shuffleArray rnd (generateAllCombinations cfg now)"
    by (simp add: generate_returns_shuffle)
  then show "length dataset = calculateExpectedCombinations cfg"
    by (simp add: length_shuffleArray length_generateAllCombinations)
next
  show "calculateExpectedCombinations cfg = length (admissible_pairs cfg)"
    by (rule calculateExpectedCombinations_eq)
next
  show "calculateExpectedCombinations CONFIG = 1161"
    by (rule count_CONFIG)
qed

theorem dataset_length_is_recomputed_count_witness:
  "generateBloodPressureDataset CONFIG 1700000000000 half_source
     = Inr (shuffleArray half_source (generateAllCombinations CONFIG 1700000000000))
   \<and> length (shuffleArray half_source (generateAllCombinations CONFIG 1700000000000)) = 1161"
  using dataset_length_is_recomputed_count
          [of CONFIG 1700000000000 half_source
              "shuffleArray half_source (generateAllCombinations CONFIG 1700000000000)"]
  by (simp add: generate_returns_shuffle)

lemma admissible_pair_validates:
  "pair_of reading \<in> set (admissible_pairs cfg) \<Longrightarrow> validateReading cfg reading"
  by (auto simp: admissible_pairs_def validateReading_def pair_of_def)

lemma zero_source_index: "random_index zero_source k n = 0"
  by (simp add: random_index_def zero_source_def zero_draw.rep_eq)

lemma shuffle_three_zero_source: "shuffleArray zero_source [a, b, c] = [b, c, a]"
  by (simp add: shuffleArray_def Let_def zero_source_index numeral_2_eq_2)

lemma small_config_combinations:
  "generateAllCombinations small_config 1000 =
     [\<lparr>systolic = 90, diastolic = 70, timestamp = 1000\<rparr>,
      \<lparr>systolic = 91, diastolic = 70, timestamp = 2000\<rparr>,
      \<lparr>systolic = 91, diastolic = 71, timestamp = 3000\<rparr>]"
  by code_simp

lemma small_config_dataset:
  "generateBloodPressureDataset small_config 1000 zero_source =
     Inr [\<lparr>systolic = 91, diastolic = 70, timestamp = 2000\<rparr>,
          \<lparr>systolic = 91, diastolic = 71, timestamp = 3000\<rparr>,
          \<lparr>systolic = 90, diastolic = 70, timestamp = 1000\<rparr>]"
  by (simp add: generate_returns_shuffle small_config_combinations shuffle_three_zero_source)

text \<open>
  C5. Every reading of a dataset that \<open>generateBloodPressureDataset\<close> returns passes
  \<open>validateReading\<close> (for the configuration the dataset was generated with).
\<close>

theorem generated_readings_validate:
  assumes "generateBloodPressureDataset cfg now rnd = Inr dataset"
    and "reading \<in> set dataset"
  shows "validateReading cfg reading"
proof -
  from assms(1) have "dataset = shuffleArray rnd (generateAllCombinations cfg now)"
    by (simp add: generate_returns_shuffle)
  with assms(2) have "reading \<in> set (generateAllCombinations cfg now)"
    by (simp add: set_shuffleArray)
  then have "pair_of reading \<in> set (map pair_of (generateAllCombinations cfg now))"
    by simp
  then have "pair_of reading \<in> set (admissible_pairs cfg)"
    by (simp only: pairs_generateAllCombinations)
  then show ?thesis
    by (rule admissible_pair_validates)
qed

theorem generated_readings_validate_witness:
  "generateBloodPressureDataset small_config 1000 zero_source =
     Inr [\<lparr>systolic = 91, diastolic = 70, timestamp = 2000\<rparr>,
          \<lparr>systolic = 91, diastolic = 71, timestamp = 3000\<rparr>,
          \<lparr>systolic = 90, diastolic = 70, timestamp = 1000\<rparr>]
   \<and> validateReading small_config \<lparr>systolic = 91, diastolic = 71, timestamp = 3000\<rparr>"
  using generated_readings_validate
          [of small_config 1000 zero_source
              "[\<lparr>systolic = 91, diastolic = 70, timestamp = 2000\<rparr>,
                \<lparr>systolic = 91, diastolic = 71, timestamp = 3000\<rparr>,
                \<lparr>systolic = 90, diastolic = 70, timestamp = 1000\<rparr>]"
              "\<lparr>systolic = 91, diastolic = 71, timestamp = 3000\<rparr>"]
  by (simp add: small_config_dataset)

text \<open>
  C6. \<open>shuffleArray\<close> returns a permutation of its input, whatever the random source draws:
  the output has the elements of the input with the same multiplicities, hence the same
  length, and for a dataset the same multiset of (systolic, diastolic) pairs.
\<close>

theorem shuffleArray_is_permutation:
  "mset (shuffleArray rnd array) = mset array
   \<and> length (shuffleArray rnd array) = length array
   \<and> image_mset pair_of (mset (shuffleArray rnd dataset)) = image_mset pair_of (mset dataset)"
  by (simp add: mset_shuffleArray length_shuffleArray)

text \<open>
  C10. With the built-in configuration, \<open>generateAllCombinations\<close> and
  \<open>calculateExpectedCombinations\<close> agree on the count, so the count-mismatch branch is never
  taken: for every base timestamp and every random source, \<open>generateBloodPressureDataset\<close>
  returns success.
\<close>

theorem builtin_generation_succeeds:
  "length (generateAllCombinations CONFIG now) = calculateExpectedCombinations CONFIG
   \<and> (\<exists>dataset. generateBloodPressureDataset CONFIG now rnd = Inr dataset)"
  by (simp add: length_generateAllCombinations generate_returns_shuffle)





lemma getReadingAtIndex_wraps_nonneg:
  assumes "dataset \<noteq> []" and "0 \<le> i" and "0 \<le> i + k * int (length dataset)"
  shows "getReadingAtIndex dataset (i + k * int (length dataset)) = getReadingAtIndex dataset i"
    and "getReadingAtIndex dataset i = Value (dataset ! nat (i mod int (length dataset)))"
  using assms by (simp_all add: getReadingAtIndex_def js_rem_def array_get_def Let_def)

text \<open>
  C2. The claim: for a non-empty dataset, \<open>getReadingAtIndex\<close> gives the same reading at
  \<open>i\<close> and at \<open>i + k * length\<close> for all integers \<open>i\<close> and \<open>k\<close>, negative indices wrap around
  and the result is never absent. The function computes \<open>index % dataset.length\<close>, which is
  negative for a negative index that is not a multiple of the length, and the array read at a
  negative index is \<open>undefined\<close>. For indices that are not negative the wraparound holds.
\<close>

theorem getReadingAtIndex_negative_index:
  "getReadingAtIndex
     [\<lparr>systolic = 120, diastolic = 80, timestamp = 1000\<rparr>,
      \<lparr>systolic = 121, diastolic = 81, timestamp = 2000\<rparr>,
      \<lparr>systolic = 122, diastolic = 82, timestamp = 3000\<rparr>] (- 1) = Undefined
   \<and> getReadingAtIndex
     [\<lparr>systolic = 120, diastolic = 80, timestamp = 1000\<rparr>,
      \<lparr>systolic = 121, diastolic = 81, timestamp = 2000\<rparr>,
      \<lparr>systolic = 122, diastolic = 82, timestamp = 3000\<rparr>] (- 1 + 1 * 3)
       = Value \<lparr>systolic = 122, diastolic = 82, timestamp = 3000\<rparr>"
  by (simp add: getReadingAtIndex_def js_rem_def array_get_def)

subsection \<open>The shuffle and its input array\<close>

lemma shuffle_loop_heap_cell:
  "shuffled < length h \<Longrightarrow>
     shuffle_loop_heap rnd k i shuffled h = h[shuffled := shuffle_loop rnd k i (h ! shuffled)]"
proof (induction i arbitrary: k h)
  case 0
  then show ?case by simp
next
  case (Suc i)
  then show ?case
    by (simp add: Let_def)
qed

text \<open>On the heap, \<open>shuffleArray\<close> allocates one array, which holds the value that the
  function on lists computes.\<close>

lemma shuffleArray_heap_eq:
  "shuffleArray_heap rnd array h = (length h, h @ [shuffleArray rnd (h ! array)])"
  by (simp add: shuffleArray_heap_def Let_def shuffle_loop_heap_cell shuffleArray_def)

text \<open>
  C9. \<open>shuffleArray\<close> does not mutate its input: after the call, the array it was given (in
  \<open>generateBloodPressureDataset\<close>, the enumerated sequence \<open>allCombinations\<close>) holds the same
  elements in the same order, as does every other array that existed before the call; the
  result is a new array.
\<close>

theorem shuffleArray_leaves_input:
  assumes "array < length h"
    and "shuffleArray_heap rnd array h = (shuffled, h')"
  shows "h' ! array = h ! array \<and> take (length h) h' = h \<and> shuffled \<noteq> array
         \<and> h' ! shuffled = shuffleArray rnd (h ! array)"
  using assms by (auto simp: shuffleArray_heap_eq nth_append)

theorem shuffleArray_leaves_input_witness:
  "(0 :: nat) < length [generateAllCombinations small_config 1000]
   \<and> shuffleArray_heap zero_source 0 [generateAllCombinations small_config 1000]
       = (1, [[\<lparr>systolic = 90, diastolic = 70, timestamp = 1000\<rparr>,
               \<lparr>systolic = 91, diastolic = 70, timestamp = 2000\<rparr>,
               \<lparr>systolic = 91, diastolic = 71, timestamp = 3000\<rparr>],
              [\<lparr>systolic = 91, diastolic = 70, timestamp = 2000\<rparr>,
               \<lparr>systolic = 91, diastolic = 71, timestamp = 3000\<rparr>,
               \<lparr>systolic = 90, diastolic = 70, timestamp = 1000\<rparr>]])
   \<and> [[\<lparr>systolic = 90, diastolic = 70, timestamp = 1000\<rparr>,
        \<lparr>systolic = 91, diastolic = 70, timestamp = 2000\<rparr>,
        \<lparr>systolic = 91, diastolic = 71, timestamp = 3000\<rparr>],
       [\<lparr>systolic = 91, diastolic = 70, timestamp = 2000\<rparr>,
        \<lparr>systolic = 91, diastolic = 71, timestamp = 3000\<rparr>,
        \<lparr>systolic = 90, diastolic = 70, timestamp = 1000\<rparr>]] ! 0
       = generateAllCombinations small_config 1000"
  using shuffleArray_leaves_input
          [of 0 "[generateAllCombinations small_config 1000]" zero_source 1
              "[[\<lparr>systolic = 90, diastolic = 70, timestamp = 1000\<rparr>,
                 \<lparr>systolic = 91, diastolic = 70, timestamp = 2000\<rparr>,
                 \<lparr>systolic = 91, diastolic = 71, timestamp = 3000\<rparr>],
                [\<lparr>systolic = 91, diastolic = 70, timestamp = 2000\<rparr>,
                 \<lparr>systolic = 91, diastolic = 71, timestamp = 3000\<rparr>,
                 \<lparr>systolic = 90, diastolic = 70, timestamp = 1000\<rparr>]]"]
  by (simp add: shuffleArray_heap_eq small_config_combinations shuffle_three_zero_source)

section \<open>Properties of the Session Store\<close>

subsection \<open>Availability\<close>

lemma unavailable_first:
  "\<not> fst (isLocalStorageAvailable h) \<Longrightarrow> \<exists>h1. isLocalStorageAvailable h = (False, h1)"
  by (cases "isLocalStorageAvailable h") auto

lemma available_iff:
  "fst (isLocalStorageAvailable h) \<longleftrightarrow>
     window_defined h \<and> storage_denied h = None
     \<and> write_refused h (items h) ''__localStorage_test__'' ''__localStorage_test__'' = None"
  by (auto simp: isLocalStorageAvailable_def setItem_def removeItem_def Let_def split: option.splits)

lemma available_state:
  assumes "fst (isLocalStorageAvailable h)"
  shows "isLocalStorageAvailable h = (True, h\<lparr>items := (items h)(''__localStorage_test__'' := None)\<rparr>)"
  using assms
  by (auto simp: isLocalStorageAvailable_def setItem_def removeItem_def Let_def split: option.splits if_splits)

lemma browser_host_available: "fst (isLocalStorageAvailable (browser_host m))"
  by (simp add: available_iff browser_host_def)

lemma browser_host_probe:
  "isLocalStorageAvailable (browser_host m) = (True, browser_host (m(''__localStorage_test__'' := None)))"
  by (simp add: available_state [OF browser_host_available]) (simp add: browser_host_def)

text \<open>
  C8. When persistence is unavailable (the probe answers false: \<open>window\<close> is undefined, or
  the test write or removal throws), each of \<open>storeDataset\<close>, \<open>getDataset\<close>,
  \<open>storeCurrentIndex\<close>, \<open>getCurrentIndex\<close>, \<open>storeTimestamp\<close>, \<open>getTimestamp\<close> and
  \<open>clearStorage\<close> returns the \<open>STORAGE_ERROR\<close> with the message
  \<open>localStorage is not available\<close>, and \<open>isAppInitialized\<close> returns false. None of them
  raises: the seven operations return a result by their type, and \<open>isAppInitialized\<close>,
  the only one that could let an exception through, returns \<open>Inr False\<close>.
\<close>

theorem unavailable_storage_errors:
  assumes "\<not> fst (isLocalStorageAvailable h)"
  shows "fst (storeDataset dataset h) = Inl (createStorageError ''localStorage is not available'' None)
       \<and> fst (getDataset h) = Inl (createStorageError ''localStorage is not available'' None)
       \<and> fst (storeCurrentIndex index h) = Inl (createStorageError ''localStorage is not available'' None)
       \<and> fst (getCurrentIndex h) = Inl (createStorageError ''localStorage is not available'' None)
       \<and> fst (storeTimestamp ts h) = Inl (createStorageError ''localStorage is not available'' None)
       \<and> fst (getTimestamp h) = Inl (createStorageError ''localStorage is not available'' None)
       \<and> fst (clearStorage h) = Inl (createStorageError ''localStorage is not available'' None)
       \<and> fst (isAppInitialized h) = Inr False
       \<and> error_type (createStorageError ''localStorage is not available'' None) = STORAGE_ERROR"
proof -
  from assms obtain h1 where "isLocalStorageAvailable h = (False, h1)"
    using unavailable_first by blast
  then show ?thesis
    by (simp add: storeDataset_def getDataset_def storeCurrentIndex_def getCurrentIndex_def
          storeTimestamp_def getTimestamp_def clearStorage_def isAppInitialized_def createStorageError_def)
qed

theorem unavailable_storage_errors_witness:
  "\<not> fst (isLocalStorageAvailable headless_host)
   \<and> \<not> fst (isLocalStorageAvailable denied_host)
   \<and> fst (getDataset headless_host) = Inl (createStorageError ''localStorage is not available'' None)
   \<and> fst (storeCurrentIndex 5 denied_host) = Inl (createStorageError ''localStorage is not available'' None)
   \<and> fst (isAppInitialized headless_host) = Inr False"
  using unavailable_storage_errors [of headless_host "[]" 5 0]
    unavailable_storage_errors [of denied_host "[]" 5 0]
  by (simp add: isLocalStorageAvailable_def headless_host_def denied_host_def setItem_def)

subsection \<open>Decimal digits\<close>

lemma lt10_cases: "d < 10 \<Longrightarrow> d \<in> {0, 1, 2, 3, 4, 5, 6, 7, 8, 9 :: nat}"
  by auto

lemma digit_value_digit_char: "d < 10 \<Longrightarrow> digit_value (digit_char d) = d"
  by (drule lt10_cases) (auto simp: digit_value_def digit_char_def)

lemma is_digit_digit_char: "d < 10 \<Longrightarrow> is_digit (digit_char d)"
  by (drule lt10_cases) (auto simp: is_digit_def digit_char_def)

lemma digits_value_snoc: "digits_value (ds @ [c]) = 10 * digits_value ds + digit_value c"
  by (simp add: digits_value_def)

lemma digits_value_nat_digits: "digits_value (nat_digits n) = n"
proof (induction n rule: nat_digits.induct)
  case (1 n)
  show ?case
  proof (cases "n < 10")
    case True
    then show ?thesis
      by (subst nat_digits.simps) (simp add: digits_value_def digit_value_digit_char)
  next
    case False
    then show ?thesis
      by (subst nat_digits.simps) (simp add: digits_value_snoc 1 digit_value_digit_char)
  qed
qed

lemma all_digits_nat_digits: "\<forall>c \<in> set (nat_digits n). is_digit c"
proof (induction n rule: nat_digits.induct)
  case (1 n)
  show ?case
    by (subst nat_digits.simps) (use 1 in \<open>auto simp: is_digit_digit_char\<close>)
qed

lemma nat_digits_nonempty: "nat_digits n \<noteq> []"
  by (subst nat_digits.simps) simp

lemma hd_nat_digits: "0 < n \<Longrightarrow> hd (nat_digits n) \<noteq> CHR ''0''"
proof (induction n rule: nat_digits.induct)
  case (1 n)
  show ?case
  proof (cases "n < 10")
    case True
    with 1(2) have "n \<in> {1, 2, 3, 4, 5, 6, 7, 8, 9}" by auto
    then show ?thesis
      by (subst nat_digits.simps) (auto simp: digit_char_def)
  next
    case False
    then have "0 < n div 10" by simp
    with 1(1) False have "hd (nat_digits (n div 10)) \<noteq> CHR ''0''" by simp
    then show ?thesis
      using False by (subst nat_digits.simps) (simp add: nat_digits_nonempty)
  qed
qed

lemma nat_digits_Cons: "\<exists>x xs. nat_digits m = x # xs \<and> is_digit x \<and> (0 < m \<longrightarrow> x \<noteq> CHR ''0'') \<and> (m = 0 \<longrightarrow> xs = [])"
proof -
  obtain x xs where e: "nat_digits m = x # xs"
    using nat_digits_nonempty [of m] by (cases "nat_digits m") auto
  have "is_digit x"
    using all_digits_nat_digits [of m] e by simp
  moreover have "0 < m \<longrightarrow> x \<noteq> CHR ''0''"
    using hd_nat_digits [of m] e by auto
  moreover have "m = 0 \<longrightarrow> xs = []"
    using e by (auto simp: nat_digits.simps)
  ultimately show ?thesis
    using e by blast
qed

lemma Number_toString_Cons:
  "\<exists>x xs. Number_toString n = x # xs \<and> x \<in> set ''-0123456789''"
proof (cases "n < 0")
  case True
  then show ?thesis by (simp add: Number_toString_def)
next
  case False
  obtain x xs where "nat_digits (nat n) = x # xs" "is_digit x"
    using nat_digits_Cons [of "nat n"] by blast
  then show ?thesis
    using False by (auto simp: Number_toString_def is_digit_def)
qed

subsection \<open>Parsing the text of a number\<close>

lemma skip_ws_Cons: "\<not> is_json_ws c \<Longrightarrow> skip_ws (c # cs) = c # cs"
  by (simp add: skip_ws_def)

lemma takeWhile_digits_append:
  "\<forall>x \<in> set ds. is_digit x \<Longrightarrow> \<not> is_digit c \<Longrightarrow> takeWhile is_digit (ds @ c # rest) = ds"
  by (induction ds) auto

lemma dropWhile_digits_append:
  "\<forall>x \<in> set ds. is_digit x \<Longrightarrow> \<not> is_digit c \<Longrightarrow> dropWhile is_digit (ds @ c # rest) = c # rest"
  by (induction ds) auto

lemma parse_int_part_digits:
  assumes "\<not> is_digit c"
  shows "parse_int_part (nat_digits m @ c # rest) = Some (m, c # rest)"
proof -
  obtain x xs where e: "nat_digits m = x # xs" and dx: "is_digit x"
      and nz: "0 < m \<longrightarrow> x \<noteq> CHR ''0''" and z: "m = 0 \<longrightarrow> xs = []"
    using nat_digits_Cons [of m] by blast
  show ?thesis
  proof (cases "m = 0")
    case True
    then have "nat_digits m = ''0''"
      by (simp add: nat_digits.simps digit_char_def)
    then show ?thesis
      using True by (simp add: parse_int_part_def)
  next
    case False
    have t: "takeWhile is_digit (nat_digits m @ c # rest) = nat_digits m"
      using all_digits_nat_digits assms by (rule takeWhile_digits_append)
    have d: "dropWhile is_digit (nat_digits m @ c # rest) = c # rest"
      using all_digits_nat_digits assms by (rule dropWhile_digits_append)
    have "parse_int_part (nat_digits m @ c # rest) =
            Some (digits_value (takeWhile is_digit (nat_digits m @ c # rest)),
                  dropWhile is_digit (nat_digits m @ c # rest))"
      using False nz dx by (simp add: parse_int_part_def e)
    then show ?thesis
      by (simp add: t d digits_value_nat_digits)
  qed
qed

lemma ends_number_facts:
  assumes "ends_number c"
  shows "\<not> is_digit c" "c \<noteq> CHR ''.''" "c \<noteq> CHR ''e''" "c \<noteq> CHR ''E''"
  using assms by (auto simp: ends_number_def is_digit_def)

lemma parse_number_nat:
  assumes "ends_number c"
  shows "parse_number (nat_digits m @ c # rest) = Some (JNumber (real m), c # rest)"
proof -
  obtain x xs where e: "nat_digits m = x # xs" and dx: "is_digit x"
    using nat_digits_Cons [of m] by blast
  have "x \<noteq> CHR ''-''"
    using dx by (auto simp: is_digit_def)
  then have "parse_number (nat_digits m @ c # rest) =
      (case parse_int_part (nat_digits m @ c # rest) of
           None \<Rightarrow> None
         | Some (ip, cs2) \<Rightarrow>
             (case parse_frac cs2 of
                None \<Rightarrow> None
              | Some (fr, cs3) \<Rightarrow>
                  (case parse_exp cs3 of
                     None \<Rightarrow> None
                   | Some (ex, cs4) \<Rightarrow>
                       Some (JNumber (1 * (real ip + fr) * pow10 ex), cs4))))"
    by (simp add: parse_number_def e)
  then show ?thesis
    using ends_number_facts [OF assms]
    by (simp add: parse_int_part_digits parse_frac_def parse_exp_def pow10_def)
qed

lemma parse_number_neg:
  assumes "ends_number c"
  shows "parse_number (CHR ''-'' # nat_digits m @ c # rest) = Some (JNumber (- real m), c # rest)"
  using ends_number_facts [OF assms]
  by (simp add: parse_number_def parse_int_part_digits parse_frac_def parse_exp_def pow10_def)

lemma parse_number_toString:
  assumes "ends_number c"
  shows "parse_number (Number_toString n @ c # rest) = Some (JNumber (of_int n), c # rest)"
proof (cases "n < 0")
  case True
  then have "real (nat (- n)) = - real_of_int n" by simp
  then show ?thesis
    using True by (simp add: Number_toString_def parse_number_neg [OF assms])
next
  case False
  then have "real (nat n) = real_of_int n" by simp
  then show ?thesis
    using False by (simp add: Number_toString_def parse_number_nat [OF assms])
qed

lemma parse_value_number:
  assumes "ends_number c"
  shows "parse_value (Suc fuel) (Number_toString n @ c # rest) = Some (JNumber (of_int n), c # rest)"
proof -
  obtain x xs where e: "Number_toString n = x # xs" and x: "x \<in> set ''-0123456789''"
    using Number_toString_Cons [of n] by blast
  have "parse_value (Suc fuel) (x # xs @ c # rest) = parse_number (x # xs @ c # rest)"
    using x by (auto simp: skip_ws_def is_json_ws_def dquote_def)
  then show ?thesis
    using parse_number_toString [OF assms, of n rest] by (simp add: e)
qed

subsection \<open>Parsing the text of a dataset\<close>

lemma parse_string_body_plain:
  "\<forall>c \<in> set key. plain_char c \<Longrightarrow> parse_string_body (key @ dquote # rest) = Some (key, rest)"
  by (induction key) (simp_all add: plain_char_def)

lemma plain_keys:
  "\<forall>c \<in> set ''systolic''. plain_char c"
  "\<forall>c \<in> set ''diastolic''. plain_char c"
  "\<forall>c \<in> set ''timestamp''. plain_char c"
  by (simp_all add: plain_char_def dquote_def)

lemma ws_facts: "\<not> is_json_ws dquote" "\<not> is_json_ws (CHR '':'')" "\<not> is_json_ws (CHR '','')"
  "\<not> is_json_ws (CHR ''}'')" "\<not> is_json_ws (CHR '']'')" "\<not> is_json_ws (CHR ''{'')" "\<not> is_json_ws (CHR ''['')"
  by (simp_all add: is_json_ws_def dquote_def)

lemma dquote_neq: "dquote \<noteq> CHR ''}''" "dquote \<noteq> CHR '']''" "CHR ''{'' \<noteq> dquote"
  by (simp_all add: dquote_def)

lemma parse_member_more:
  assumes "\<forall>c \<in> set key. plain_char c"
  shows "parse_members (Suc (Suc fuel)) acc (quoted key @ CHR '':'' # Number_toString n @ CHR '','' # rest)
           = parse_members (Suc fuel) (fmupd key (JNumber (of_int n)) acc) rest"
proof -
  have e: "ends_number (CHR '','')" by (simp add: ends_number_def)
  have q: "quoted key @ CHR '':'' # Number_toString n @ CHR '','' # rest
             = dquote # key @ dquote # CHR '':'' # Number_toString n @ CHR '','' # rest"
    by (simp add: quoted_def)
  show ?thesis
    unfolding q
    by (subst parse_members.simps)
       (simp add: skip_ws_Cons ws_facts parse_string_body_plain [OF assms] parse_value_number [OF e]
             del: parse_value.simps parse_members.simps)
qed

lemma parse_member_last:
  assumes "\<forall>c \<in> set key. plain_char c"
  shows "parse_members (Suc (Suc fuel)) acc (quoted key @ CHR '':'' # Number_toString n @ CHR ''}'' # rest)
           = Some (JObject (fmupd key (JNumber (of_int n)) acc), rest)"
proof -
  have e: "ends_number (CHR ''}'')" by (simp add: ends_number_def)
  have q: "quoted key @ CHR '':'' # Number_toString n @ CHR ''}'' # rest
             = dquote # key @ dquote # CHR '':'' # Number_toString n @ CHR ''}'' # rest"
    by (simp add: quoted_def)
  show ?thesis
    unfolding q
    by (subst parse_members.simps)
       (simp add: skip_ws_Cons ws_facts parse_string_body_plain [OF assms] parse_value_number [OF e]
             del: parse_value.simps parse_members.simps)
qed

lemma stringify_reading_unfold:
  "stringify_reading r @ rest =
     CHR ''{'' # quoted ''systolic'' @ CHR '':'' # Number_toString (systolic r) @ CHR '','' #
       (quoted ''diastolic'' @ CHR '':'' # Number_toString (diastolic r) @ CHR '','' #
         (quoted ''timestamp'' @ CHR '':'' # Number_toString (timestamp r) @ CHR ''}'' # rest))"
  by (simp add: stringify_reading_def)

lemma parse_value_object_start:
  "parse_value (Suc fuel) (CHR ''{'' # quoted k @ rest) = parse_members fuel fmempty (quoted k @ rest)"
  by (subst parse_value.simps)
     (simp add: skip_ws_Cons ws_facts quoted_def dquote_neq del: parse_value.simps parse_members.simps)

lemma parse_value_reading:
  "parse_value (Suc (Suc (Suc (Suc (Suc fuel))))) (stringify_reading r @ rest) = Some (reading_value r, rest)"
  unfolding stringify_reading_unfold parse_value_object_start
  by (simp only: parse_member_more [OF plain_keys(1)] parse_member_more [OF plain_keys(2)]
        parse_member_last [OF plain_keys(3)] reading_value_def)

lemma parse_elements_readings:
  "parse_elements (Suc (Suc (Suc (Suc (Suc (Suc (length rs + f)))))))
       acc (join_comma (map stringify_reading (r # rs)) @ CHR '']'' # rest)
     = Some (JArray (acc @ map reading_value (r # rs)), rest)"
proof (induction rs arbitrary: r acc)
  case Nil
  show ?case
    by (subst parse_elements.simps)
       (simp add: parse_value_reading skip_ws_Cons ws_facts del: parse_value.simps parse_elements.simps)
next
  case (Cons r' rs)
  have "parse_elements (Suc (Suc (Suc (Suc (Suc (Suc (length (r' # rs) + f)))))))
          acc (join_comma (map stringify_reading (r # r' # rs)) @ CHR '']'' # rest)
      = parse_elements (Suc (Suc (Suc (Suc (Suc (Suc (length rs + f)))))))
          (acc @ [reading_value r]) (join_comma (map stringify_reading (r' # rs)) @ CHR '']'' # rest)"
    by (subst parse_elements.simps)
       (simp add: parse_value_reading skip_ws_Cons ws_facts del: parse_value.simps parse_elements.simps)
  also have "\<dots> = Some (JArray ((acc @ [reading_value r]) @ map reading_value (r' # rs)), rest)"
    by (rule Cons.IH)
  finally show ?case by simp
qed

lemma length_stringify_reading: "5 \<le> length (stringify_reading r)"
  by (simp add: stringify_reading_def quoted_def)

lemma length_join_readings: "5 * length rs \<le> length (join_comma (map stringify_reading rs))"
proof (induction rs rule: induct_list012)
  case 1
  show ?case by simp
next
  case (2 r)
  show ?case using length_stringify_reading [of r] by simp
next
  case (3 r r' rs)
  then show ?case using length_stringify_reading [of r] by simp
qed

lemma parse_value_dataset:
  assumes "0 < fuel" and "dataset \<noteq> [] \<Longrightarrow> 7 + length dataset \<le> fuel"
  shows "parse_value fuel (JSON_stringify dataset) = Some (dataset_value dataset, [])"
proof (cases dataset)
  case Nil
  from assms(1) obtain f where "fuel = Suc f"
    by (cases fuel) auto
  then show ?thesis
    using Nil
    by (simp add: JSON_stringify_def dataset_value_def skip_ws_Cons ws_facts)
next
  case (Cons r rs)
  from assms(2) Cons obtain f where "fuel = 7 + length dataset + f"
    using le_iff_add by blast
  then have f: "fuel = Suc (Suc (Suc (Suc (Suc (Suc (Suc (Suc (length rs + f))))))))"
    using Cons by simp
  obtain x xs where x: "stringify_reading r = CHR ''{'' # xs"
    by (simp add: stringify_reading_def)
  have j: "join_comma (map stringify_reading (r # rs)) = CHR ''{'' # tl (join_comma (map stringify_reading (r # rs)))"
    by (cases rs) (simp_all add: x)
  have "parse_value fuel (JSON_stringify dataset)
          = parse_elements (Suc (Suc (Suc (Suc (Suc (Suc (Suc (length rs + f))))))))
              [] (join_comma (map stringify_reading (r # rs)) @ CHR '']'' # [])"
    unfolding f JSON_stringify_def Cons
    apply (subst parse_value.simps)
    apply (subst (1 2) j)
    apply (simp add: skip_ws_Cons ws_facts del: parse_value.simps parse_elements.simps join_comma.simps)
    done
  also have "\<dots> = Some (JArray ([] @ map reading_value (r # rs)), [])"
    using parse_elements_readings [of rs "Suc f" "[]" r "[]"] by simp
  finally show ?thesis
    by (simp add: dataset_value_def Cons)
qed

text \<open>\<open>JSON.parse\<close> inverts \<open>JSON.stringify\<close> on datasets, and distinct datasets have distinct
  values.\<close>

lemma JSON_parse_stringify: "JSON_parse (JSON_stringify dataset) = Inr (dataset_value dataset)"
proof -
  have "2 + 5 * length dataset \<le> length (JSON_stringify dataset)"
    using length_join_readings [of dataset] by (simp add: JSON_stringify_def)
  then have "dataset \<noteq> [] \<Longrightarrow> 7 + length dataset \<le> 2 * length (JSON_stringify dataset) + 2"
    by (cases dataset) simp_all
  then have "parse_value (2 * length (JSON_stringify dataset) + 2) (JSON_stringify dataset)
               = Some (dataset_value dataset, [])"
    by (intro parse_value_dataset) simp_all
  then show ?thesis
    by (simp add: JSON_parse_def skip_ws_def)
qed

lemma JSON_stringify_nonempty: "JSON_stringify dataset \<noteq> []"
  by (simp add: JSON_stringify_def)

lemma reading_value_inj: "reading_value r = reading_value r' \<Longrightarrow> r = r'"
proof -
  assume a: "reading_value r = reading_value r'"
  let ?m = "\<lambda>r. fmupd ''timestamp'' (JNumber (of_int (timestamp r)))
             (fmupd ''diastolic'' (JNumber (of_int (diastolic r)))
             (fmupd ''systolic'' (JNumber (of_int (systolic r))) fmempty))"
  from a have m: "?m r = ?m r'"
    by (simp add: reading_value_def)
  have "fmlookup (?m r) ''systolic'' = fmlookup (?m r') ''systolic''"
       "fmlookup (?m r) ''diastolic'' = fmlookup (?m r') ''diastolic''"
       "fmlookup (?m r) ''timestamp'' = fmlookup (?m r') ''timestamp''"
    using m by simp_all
  then have "systolic r = systolic r'" "diastolic r = diastolic r'" "timestamp r = timestamp r'"
    by simp_all
  then show "r = r'"
    by simp
qed

lemma dataset_value_inj: "dataset_value d = dataset_value d' \<Longrightarrow> d = d'"
  using reading_value_inj by (auto simp: dataset_value_def inj_on_def dest!: map_inj_on [where xs = d and ys = d'])

subsection \<open>Round trip of the dataset\<close>

lemma storeDataset_success:
  assumes "storeDataset dataset h = (Inr (), h1)"
  shows "items h1 (dataset_key STORAGE_KEYS) = Some (JSON_stringify dataset)"
proof (cases "fst (isLocalStorageAvailable h)")
  case True
  show ?thesis
    using assms
    by (auto simp: storeDataset_def available_state [OF True] setItem_def Let_def
             split: option.splits sum.splits)
next
  case False
  then obtain h0 where "isLocalStorageAvailable h = (False, h0)"
    using unavailable_first by blast
  with assms show ?thesis
    by (simp add: storeDataset_def)
qed

text \<open>
  C7. When \<open>storeDataset d\<close> succeeds (persistence is available and the write is accepted) and
  persistence is available at the following \<open>getDataset\<close>, then \<open>getDataset\<close> returns success
  with the dataset \<open>d\<close>, field for field, for every dataset of readings with integer
  \<open>systolic\<close>, \<open>diastolic\<close> and \<open>timestamp\<close>.
\<close>

theorem stored_dataset_round_trip:
  assumes "storeDataset dataset h = (Inr (), h1)"
    and "fst (isLocalStorageAvailable h1)"
  shows "fst (getDataset h1) = Inr (dataset_value dataset)"
proof -
  have d: "storage_denied h1 = None"
    using assms(2) by (simp add: available_iff)
  have i: "items h1 ''bp-dataset'' = Some (JSON_stringify dataset)"
    using storeDataset_success [OF assms(1)] by (simp add: STORAGE_KEYS_def)
  show ?thesis
    by (simp add: getDataset_def available_state [OF assms(2)] getItem_def d i STORAGE_KEYS_def
          JSON_stringify_nonempty safeJsonParse_def JSON_parse_stringify)
qed

theorem stored_dataset_round_trip_witness:
  "storeDataset [\<lparr>systolic = 91, diastolic = 70, timestamp = 2000\<rparr>,
                 \<lparr>systolic = 120, diastolic = 80, timestamp = 3000\<rparr>] (browser_host Map.empty)
     = (Inr (), browser_host [''bp-dataset'' \<mapsto>
          JSON_stringify [\<lparr>systolic = 91, diastolic = 70, timestamp = 2000\<rparr>,
                          \<lparr>systolic = 120, diastolic = 80, timestamp = 3000\<rparr>]])
   \<and> fst (isLocalStorageAvailable (browser_host [''bp-dataset'' \<mapsto>
          JSON_stringify [\<lparr>systolic = 91, diastolic = 70, timestamp = 2000\<rparr>,
                          \<lparr>systolic = 120, diastolic = 80, timestamp = 3000\<rparr>]]))
   \<and> fst (getDataset (browser_host [''bp-dataset'' \<mapsto>
          JSON_stringify [\<lparr>systolic = 91, diastolic = 70, timestamp = 2000\<rparr>,
                          \<lparr>systolic = 120, diastolic = 80, timestamp = 3000\<rparr>]]))
       = Inr (dataset_value [\<lparr>systolic = 91, diastolic = 70, timestamp = 2000\<rparr>,
                             \<lparr>systolic = 120, diastolic = 80, timestamp = 3000\<rparr>])"
proof -
  let ?ds = "[\<lparr>systolic = 91, diastolic = 70, timestamp = 2000\<rparr>,
              \<lparr>systolic = 120, diastolic = 80, timestamp = 3000\<rparr>]"
  have s: "storeDataset ?ds (browser_host Map.empty)
             = (Inr (), browser_host [''bp-dataset'' \<mapsto> JSON_stringify ?ds])"
    by (simp add: storeDataset_def browser_host_probe setItem_def STORAGE_KEYS_def)
       (simp add: browser_host_def)
  show ?thesis
    using stored_dataset_round_trip [OF s browser_host_available] s browser_host_available
    by simp
qed

end
